theory Spec2Isabelle
  imports Main
begin

section \<open>Strings and paths\<close>

type_synonym path = string

text \<open>Python's \<^verbatim>\<open>s.startswith(p)\<close>.\<close>

definition startswith :: "string \<Rightarrow> string \<Rightarrow> bool" where
  "startswith s p = (take (length p) s = p)"

text \<open>
  \<^verbatim>\<open>os.path.join\<close> of the POSIX flavour (both products are only built for macOS and
  Linux hosts): a component that starts with a slash replaces what was joined so far, a
  component is appended directly when the path so far is empty or ends with a slash, and
  with a separating slash otherwise.
\<close>

definition join2 :: "path \<Rightarrow> path \<Rightarrow> path" where
  "join2 a b =
     (if startswith b ''/'' then b
      else if a = [] \<or> last a = CHR ''/'' then a @ b
      else a @ ''/'' @ b)"

definition os_path_join :: "path \<Rightarrow> path list \<Rightarrow> path" where
  "os_path_join a ps = foldl join2 a ps"

section \<open>The operating system as the adapters see it\<close>

text \<open>
  The file system is a table from path strings to entries. A path string stands for the
  entry it denotes from the working directory in which the method was entered; every file
  operation of the two \<^verbatim>\<open>build\<close> methods is issued from that directory. \<open>locked p\<close> says
  that the operating system lets no entry be created or removed at \<open>p\<close> (permission is
  denied in the directory above). The directories above a path are not entries of their
  own: \<^verbatim>\<open>os.makedirs\<close> creates them as needed, and all that is kept of them is whether
  the entry at the path can be made.
\<close>

datatype node = Dir | File | Link path

record filesystem =
  entries :: "path \<Rightarrow> node option"
  locked :: "path \<Rightarrow> bool"

datatype os_error =
  FileExistsError | FileNotFoundError | IsADirectoryError | NotADirectoryError
  | PermissionError | TooManyLinks

text \<open>
  The exceptions of the source: \<^verbatim>\<open>RuntimeError(msg)\<close>, the \<^verbatim>\<open>OSError\<close> family raised by
  \<^verbatim>\<open>os.makedirs\<close>, \<^verbatim>\<open>os.unlink\<close>, \<^verbatim>\<open>os.symlink\<close> and \<^verbatim>\<open>os.chdir\<close>, the abort of
  \<^verbatim>\<open>shell.call\<close> on a failing command (its arguments and exit status), and the failure of
  a test assertion.
\<close>

datatype error =
  RuntimeError string
  | OSError os_error
  | ToolFailure "string list" int
  | AssertionFailure

datatype 'a result = Ok 'a | Raise error

text \<open>A spawned process is known by its argument vector; a standard input is inherited
  from the caller or is the standard output of a spawned process.\<close>

datatype process = Process "string list"

datatype stdin = Inherit | Stdout process

text \<open>
  What the method did, in order: \<open>Spawn argv\<close> starts a process without waiting for it;
  \<open>Run d argv i st\<close> ran \<open>argv\<close> to completion in working directory \<open>d\<close> with standard
  input \<open>i\<close> and exit status \<open>st\<close>; the others are the attempted file operations.
\<close>

datatype action =
  Spawn "string list"
  | Run path "string list" stdin int
  | Makedirs path
  | Chdir path
  | Unlink path
  | Symlink path path

record world =
  fs :: filesystem
  cwd :: path
  trace :: "action list"

text \<open>
  What lies outside the two source files is a parameter: \<open>tool d argv i f\<close> is the exit
  status of the external program \<open>argv\<close> run in directory \<open>d\<close> with standard input \<open>i\<close> on
  file system \<open>f\<close>, and the file system it leaves; \<open>realpath f d p\<close> is
  \<^verbatim>\<open>os.path.realpath(p)\<close> on file system \<open>f\<close> in working directory \<open>d\<close>;
  \<open>toolchain_path\<close> is \<^verbatim>\<open>targets.toolchain_path\<close>.
\<close>

record env =
  tool :: "path \<Rightarrow> string list \<Rightarrow> stdin \<Rightarrow> filesystem \<Rightarrow> int \<times> filesystem"
  realpath :: "filesystem \<Rightarrow> path \<Rightarrow> path \<Rightarrow> path"
  toolchain_path :: "string \<Rightarrow> string \<Rightarrow> string"

type_synonym 'a comp = "world \<Rightarrow> 'a result \<times> world"

text \<open>Sequencing of statements: an exception skips the rest; the effects so far stay.\<close>

definition seq :: "'a comp \<Rightarrow> ('a \<Rightarrow> 'b comp) \<Rightarrow> 'b comp" where
  "seq m f w = (case m w of (Ok x, w') \<Rightarrow> f x w' | (Raise e, w') \<Rightarrow> (Raise e, w'))"

text \<open>\<^verbatim>\<open>try: m  except OSError: pass\<close>\<close>

definition try_except_OSError :: "unit comp \<Rightarrow> unit comp" where
  "try_except_OSError m w =
     (case m w of
        (Raise (OSError e), w') \<Rightarrow> (Ok (), w')
      | r \<Rightarrow> r)"

definition record_action :: "action \<Rightarrow> world \<Rightarrow> world" where
  "record_action a w = w\<lparr>trace := trace w @ [a]\<rparr>"

definition set_entry :: "path \<Rightarrow> node option \<Rightarrow> world \<Rightarrow> world" where
  "set_entry p n w = w\<lparr>fs := (fs w)\<lparr>entries := (entries (fs w))(p := n)\<rparr>\<rparr>"

text \<open>\<^verbatim>\<open>os.makedirs(p)\<close> without \<^verbatim>\<open>exist_ok\<close>: an existing entry of any kind is an error.\<close>

definition os_makedirs :: "path \<Rightarrow> unit comp" where
  "os_makedirs p w =
     (let w' = record_action (Makedirs p) w in
      case entries (fs w) p of
        Some n \<Rightarrow> (Raise (OSError FileExistsError), w')
      | None \<Rightarrow>
          if locked (fs w) p then (Raise (OSError PermissionError), w')
          else (Ok (), set_entry p (Some Dir) w'))"

text \<open>\<^verbatim>\<open>os.unlink(p)\<close> removes a file or a symbolic link, never a directory.\<close>

definition os_unlink :: "path \<Rightarrow> unit comp" where
  "os_unlink p w =
     (let w' = record_action (Unlink p) w in
      case entries (fs w) p of
        None \<Rightarrow> (Raise (OSError FileNotFoundError), w')
      | Some Dir \<Rightarrow> (Raise (OSError IsADirectoryError), w')
      | Some n \<Rightarrow>
          if locked (fs w) p then (Raise (OSError PermissionError), w')
          else (Ok (), set_entry p None w'))"

text \<open>\<^verbatim>\<open>os.symlink(src, dst)\<close> creates the link \<open>dst\<close> with target \<open>src\<close>.\<close>

definition os_symlink :: "path \<Rightarrow> path \<Rightarrow> unit comp" where
  "os_symlink src dst w =
     (let w' = record_action (Symlink src dst) w in
      case entries (fs w) dst of
        Some n \<Rightarrow> (Raise (OSError FileExistsError), w')
      | None \<Rightarrow>
          if locked (fs w) dst then (Raise (OSError PermissionError), w')
          else (Ok (), set_entry dst (Some (Link src)) w'))"

text \<open>Following symbolic links, at most \<open>n\<close> of them.\<close>

fun resolve :: "nat \<Rightarrow> (path \<Rightarrow> node option) \<Rightarrow> path \<Rightarrow> os_error + node" where
  "resolve 0 es p = Inl TooManyLinks"
| "resolve (Suc n) es p =
     (case es p of
        None \<Rightarrow> Inl FileNotFoundError
      | Some (Link t) \<Rightarrow> resolve n es t
      | Some nd \<Rightarrow> Inr nd)"

text \<open>\<^verbatim>\<open>os.chdir(p)\<close>: the path must lead to a directory.\<close>

definition os_chdir :: "path \<Rightarrow> unit comp" where
  "os_chdir p w =
     (let w' = record_action (Chdir p) w in
      case resolve 40 (entries (fs w)) p of
        Inl e \<Rightarrow> (Raise (OSError e), w')
      | Inr Dir \<Rightarrow> (Ok (), w'\<lparr>cwd := p\<rparr>)
      | Inr nd \<Rightarrow> (Raise (OSError NotADirectoryError), w'))"

section \<open>The helpers of the \<^verbatim>\<open>shell\<close> module\<close>

text \<open>
  Modelled from the spec: \<^verbatim>\<open>shell.call\<close> is not among the source files. The spec says of
  it: one external command runs to completion before the next is issued, and a non-zero
  exit from any invoked build tool aborts the calling step. So the command is run in the
  current directory, and a non-zero status is raised as \<open>ToolFailure\<close>.
\<close>

definition shell_call :: "env \<Rightarrow> string list \<Rightarrow> stdin \<Rightarrow> unit comp" where
  "shell_call e argv i w =
     (let (st, f) = tool e (cwd w) argv i (fs w);
          w' = record_action (Run (cwd w) argv i st) (w\<lparr>fs := f\<rparr>)
      in if st = 0 then (Ok (), w') else (Raise (ToolFailure argv st), w'))"

text \<open>
  Modelled from the spec: \<^verbatim>\<open>shell.Popen\<close> is not among the source files. It starts the
  process and hands back its handle at once (the configuration script is fed synthetic
  input from it).
\<close>

definition shell_Popen :: "string list \<Rightarrow> process comp" where
  "shell_Popen argv w = (Ok (Process argv), record_action (Spawn argv) w)"

text \<open>
  Modelled from the spec: \<^verbatim>\<open>shell.pushd\<close> is not among the source files. The block runs
  from inside the directory: the working directory is changed with \<^verbatim>\<open>os.chdir\<close>, and set
  back when the block has completed. An exception of the block leaves through the
  context manager; where the working directory stands then is not used below.
\<close>

definition shell_pushd :: "path \<Rightarrow> unit comp \<Rightarrow> unit comp" where
  "shell_pushd p body w =
     (let old_dir = cwd w in
      seq (os_chdir p) (\<lambda>_.
      seq body (\<lambda>_ w'.
      (Ok (), (record_action (Chdir old_dir) w')\<lparr>cwd := old_dir\<rparr>))) w)"

section \<open>The products\<close>

record build_args =
  build_tensorflow_swift_apis :: bool
  install_tensorflow_swift_apis :: bool
  install_destdir :: string
  install_prefix :: string

record toolchain_t =
  cmake :: string
  ninja :: string
  bazel :: string

record product =
  args :: build_args
  toolchain :: toolchain_t
  source_dir :: path
  build_dir :: path

text \<open>\<^verbatim>\<open>product.Product\<close> gives every product its arguments, its toolchain and its two
  directories; the methods below read nothing else of it.\<close>

subsection \<open>\<^verbatim>\<open>class TensorFlowSwiftAPIs\<close>\<close>

definition TensorFlowSwiftAPIs_product_source_name :: string where
  "TensorFlowSwiftAPIs_product_source_name = ''tensorflow-swift-apis''"

definition TensorFlowSwiftAPIs_is_build_script_impl_product :: bool where
  "TensorFlowSwiftAPIs_is_build_script_impl_product = False"

definition TensorFlowSwiftAPIs_should_build :: "product \<Rightarrow> string \<Rightarrow> bool" where
  "TensorFlowSwiftAPIs_should_build self host_target =
     build_tensorflow_swift_apis (args self)"

definition TensorFlowSwiftAPIs_build :: "env \<Rightarrow> product \<Rightarrow> string \<Rightarrow> unit comp" where
  "TensorFlowSwiftAPIs_build e self host_target w =
     (let toolchain_path =
            toolchain_path e (install_destdir (args self)) (install_prefix (args self));
          swiftc = os_path_join toolchain_path [''usr'', ''bin'', ''swiftc''];
          tensorflow_source_dir = os_path_join (source_dir self) [''..'', ''tensorflow''];
          tensorflow_source_dir = realpath e (fs w) (cwd w) tensorflow_source_dir
      in
      seq (\<lambda>w.
        if startswith host_target ''macosx'' then (Ok ''libtensorflow.dylib'', w)
        else if startswith host_target ''linux'' then (Ok ''libtensorflow.so'', w)
        else (Raise (RuntimeError (''Unknown host target '' @ host_target)), w))
      (\<lambda>lib_name.
      seq (try_except_OSError (os_makedirs (build_dir self))) (\<lambda>_.
      shell_pushd (build_dir self) (
        seq (shell_call e [
          cmake (toolchain self),
          ''-G'', ''Ninja'',
          ''-D'', ''BUILD_SHARED_LIBS=YES'',
          ''-D'', ''CMAKE_INSTALL_PREFIX='' @ install_destdir (args self) @ ''/usr'',
          ''-D'', ''CMAKE_MAKE_PROGRAM='' @ ninja (toolchain self),
          ''-D'', ''CMAKE_Swift_COMPILER='' @ swiftc,
          ''-D'', ''TensorFlow_INCLUDE_DIR='' @ tensorflow_source_dir,
          ''-D'', ''TensorFlow_LIBRARY='' @
             os_path_join tensorflow_source_dir [''bazel-bin'', ''tensorflow'', lib_name],
          ''-D'', ''CMAKE_Swift_FLAGS='' @ (''-L'' @
             os_path_join tensorflow_source_dir [''bazel-bin'', ''tensorflow'']),
          ''-B'', build_dir self,
          ''-S'', source_dir self] Inherit) (\<lambda>_.
        shell_call e [
          cmake (toolchain self),
          ''--build'', build_dir self] Inherit)))) w)"

definition TensorFlowSwiftAPIs_should_test :: "product \<Rightarrow> string \<Rightarrow> bool" where
  "TensorFlowSwiftAPIs_should_test self host_target = False"

definition TensorFlowSwiftAPIs_test :: "env \<Rightarrow> product \<Rightarrow> string \<Rightarrow> unit comp" where
  "TensorFlowSwiftAPIs_test e self host_target w = (Ok (), w)"


definition TensorFlowSwiftAPIs_install :: "env \<Rightarrow> product \<Rightarrow> string \<Rightarrow> unit comp" where
  "TensorFlowSwiftAPIs_install e self host_target =
     shell_call e [
       cmake (toolchain self),
       ''--build'', build_dir self,
       ''--target'', ''install''] Inherit"

subsection \<open>\<^verbatim>\<open>class TensorFlow\<close>\<close>

definition TensorFlow_product_source_name :: string where
  "TensorFlow_product_source_name = ''tensorflow''"

definition TensorFlow_is_build_script_impl_product :: bool where
  "TensorFlow_is_build_script_impl_product = False"

definition TensorFlow_should_build :: "product \<Rightarrow> string \<Rightarrow> bool" where
  "TensorFlow_should_build self host_target = build_tensorflow_swift_apis (args self)"

definition TensorFlow_build :: "env \<Rightarrow> product \<Rightarrow> string \<Rightarrow> unit comp" where
  "TensorFlow_build e self host_target =
     (let configure_script_path = os_path_join (source_dir self) [''configure''] in
      seq (shell_Popen [''yes'', '''']) (\<lambda>yes_process.
      seq (shell_call e [configure_script_path] (Stdout yes_process)) (\<lambda>_.
      seq (shell_call e [
        bazel (toolchain self),
        ''build'',
        ''-c'', ''opt'',
        ''--define'', ''framework_shared_object=false'',
        ''//tensorflow:tensorflow''] Inherit) (\<lambda>_.
      seq (\<lambda>w.
        if startswith host_target ''macosx''
        then (Ok (''libtensorflow.2.1.0.dylib'', ''libtensorflow.dylib''), w)
        else if startswith host_target ''linux''
        then (Ok (''libtensorflow.so.2.1.0'', ''libtensorflow.so''), w)
        else (Raise (RuntimeError (''unknown host target '' @ host_target)), w))
      (\<lambda>(suffixed_lib_name, unsuffixed_lib_name).
      seq (try_except_OSError (os_unlink
        (os_path_join (source_dir self) [''bazel-bin'', ''tensorflow'', unsuffixed_lib_name])))
      (\<lambda>_.
      os_symlink
        (os_path_join (source_dir self) [''bazel-bin'', ''tensorflow'', suffixed_lib_name])
        (os_path_join (source_dir self)
           [''bazel-bin'', ''tensorflow'', unsuffixed_lib_name])))))))"

definition TensorFlow_should_test :: "product \<Rightarrow> string \<Rightarrow> bool" where
  "TensorFlow_should_test self host_target = False"

definition TensorFlow_test :: "env \<Rightarrow> product \<Rightarrow> string \<Rightarrow> unit comp" where
  "TensorFlow_test e self host_target w = (Ok (), w)"

definition TensorFlow_should_install :: "product \<Rightarrow> string \<Rightarrow> bool" where
  "TensorFlow_should_install self host_target = False"

definition TensorFlow_install :: "env \<Rightarrow> product \<Rightarrow> string \<Rightarrow> unit comp" where
  "TensorFlow_install e self host_target w = (Ok (), w)"

section \<open>The update-option test case\<close>

text \<open>The fixture of \<^verbatim>\<open>SchemeMockTestCase\<close> that the test method reads.\<close>

record fixture =
  update_checkout_path :: path
  config_path :: path
  source_root :: path

text \<open>
  Modelled from the spec: \<^verbatim>\<open>SchemeMockTestCase.call\<close> is not among the source files. The
  spec says that the test invokes the checkout-management script via its command line
  and asserts a zero exit status. So the command is run once, and a non-zero status fails
  the test.
\<close>

definition self_call :: "env \<Rightarrow> string list \<Rightarrow> unit comp" where
  "self_call e argv w =
     (let (st, f) = tool e (cwd w) argv Inherit (fs w);
          w' = record_action (Run (cwd w) argv Inherit st) (w\<lparr>fs := f\<rparr>)
      in if st = 0 then (Ok (), w') else (Raise AssertionFailure, w'))"

definition test_update_option :: "env \<Rightarrow> fixture \<Rightarrow> unit comp" where
  "test_update_option e self =
     self_call e [update_checkout_path self,
                  ''--config'', config_path self,
                  ''--source-root'', source_root self,
                  ''--clone'', ''--update'']"

section \<open>Concrete inputs\<close>

text \<open>A file system with no entries where everything may be created, a world starting
  in \<^verbatim>\<open>/work\<close> with nothing done yet, an environment in which every tool exits with
  status 0 and touches nothing, and one in which every tool exits with status 1.\<close>

definition empty_fs :: filesystem where
  "empty_fs = \<lparr>entries = (\<lambda>p. None), locked = (\<lambda>p. False)\<rparr>"

definition start_world :: world where
  "start_world = \<lparr>fs = empty_fs, cwd = ''/work'', trace = []\<rparr>"

definition ok_env :: env where
  "ok_env = \<lparr>tool = (\<lambda>d argv i f. (0, f)),
             realpath = (\<lambda>f d p. ''/src/tensorflow''),
             toolchain_path = (\<lambda>destdir prefix. destdir @ prefix)\<rparr>"

definition failing_env :: env where
  "failing_env = ok_env\<lparr>tool := (\<lambda>d argv i f. (1, f))\<rparr>"

definition demo_tensorflow :: product where
  "demo_tensorflow =
     \<lparr>args = \<lparr>build_tensorflow_swift_apis = True, install_tensorflow_swift_apis = True,
              install_destdir = ''/dest'', install_prefix = ''/usr''\<rparr>,
      toolchain = \<lparr>cmake = ''cmake'', ninja = ''ninja'', bazel = ''bazel''\<rparr>,
      source_dir = ''/src/tensorflow'',
      build_dir = ''/build/tensorflow''\<rparr>"

definition demo_apis :: product where
  "demo_apis = demo_tensorflow\<lparr>source_dir := ''/src/tensorflow-swift-apis'',
                                build_dir := ''/build/apis''\<rparr>"

text \<open>Worlds for the directory and link steps: the build directory exists already; it
  does not exist and may not be created; a stale link stands at the unsuffixed name.\<close>

definition built_world :: world where
  "built_world = start_world\<lparr>fs := empty_fs\<lparr>entries :=
     (\<lambda>p. if p = ''/build/apis'' then Some Dir else None)\<rparr>\<rparr>"

definition locked_world :: world where
  "locked_world = start_world\<lparr>fs := empty_fs\<lparr>locked := (\<lambda>p. True)\<rparr>\<rparr>"


section \<open>Basic facts about the primitives\<close>

text \<open>Joining onto a directory that is not empty and does not end with a slash puts
  one slash between the parts: the paths of the two adapters read
  \<^verbatim>\<open>dir/usr/bin/swiftc\<close>, \<^verbatim>\<open>dir/bazel-bin/tensorflow/name\<close> and \<^verbatim>\<open>dir/configure\<close>.\<close>

lemma join2_plain:
  assumes "a \<noteq> []" and "last a \<noteq> CHR ''/''" and "\<not> startswith b ''/''"
  shows "join2 a b = a @ ''/'' @ b"
  using assms by (simp add: join2_def)

lemma os_path_join_swiftc:
  assumes "a \<noteq> []" and "last a \<noteq> CHR ''/''"
  shows "os_path_join a [''usr'', ''bin'', ''swiftc''] = a @ ''/usr/bin/swiftc''"
  using assms by (simp add: os_path_join_def join2_def startswith_def)

lemma os_path_join_library:
  assumes "a \<noteq> []" and "last a \<noteq> CHR ''/''" and "\<not> startswith name ''/''"
  shows "os_path_join a [''bazel-bin'', ''tensorflow'', name] =
         a @ ''/bazel-bin/tensorflow/'' @ name"
  using assms by (simp add: os_path_join_def join2_def startswith_def)

lemma os_path_join_configure:
  assumes "a \<noteq> []" and "last a \<noteq> CHR ''/''"
  shows "os_path_join a [''configure''] = a @ ''/configure''"
  using assms by (simp add: os_path_join_def join2_def startswith_def)

lemma shell_call_eq:
  "shell_call e argv i w =
     (if fst (tool e (cwd w) argv i (fs w)) = 0 then Ok ()
      else Raise (ToolFailure argv (fst (tool e (cwd w) argv i (fs w)))),
      w\<lparr>fs := snd (tool e (cwd w) argv i (fs w)),
        trace := trace w @ [Run (cwd w) argv i (fst (tool e (cwd w) argv i (fs w)))]\<rparr>)"
  by (simp add: shell_call_def record_action_def split_beta Let_def)

lemma seq_alt:
  "seq m f w =
     (case fst (m w) of Ok x \<Rightarrow> f x (snd (m w)) | Raise err \<Rightarrow> (Raise err, snd (m w)))"
  by (simp add: seq_def split: prod.splits result.splits)

lemma trace_try_except_OSError:
  "trace (snd (try_except_OSError m w)) = trace (snd (m w))"
  by (simp add: try_except_OSError_def split: prod.splits result.splits error.splits)

lemma trace_os_unlink: "trace (snd (os_unlink p w)) = trace w @ [Unlink p]"
  by (simp add: os_unlink_def record_action_def set_entry_def Let_def
      split: option.splits node.splits)

lemma trace_os_symlink: "trace (snd (os_symlink s d w)) = trace w @ [Symlink s d]"
  by (simp add: os_symlink_def record_action_def set_entry_def Let_def
      split: option.splits node.splits)

lemma try_unlink_Ok: "fst (try_except_OSError (os_unlink p) w) = Ok ()"
  by (simp add: try_except_OSError_def os_unlink_def Let_def
      split: option.splits node.splits)

lemma try_makedirs_eq:
  "try_except_OSError (os_makedirs p) w =
     (Ok (),
      if entries (fs w) p = None \<and> \<not> locked (fs w) p
      then set_entry p (Some Dir) (record_action (Makedirs p) w)
      else record_action (Makedirs p) w)"
  by (simp add: try_except_OSError_def os_makedirs_def Let_def split: option.splits)

lemma os_chdir_eq:
  "os_chdir p w =
     (if resolve 40 (entries (fs w)) p = Inr Dir
      then (Ok (), w\<lparr>cwd := p, trace := trace w @ [Chdir p]\<rparr>)
      else (Raise (OSError (case resolve 40 (entries (fs w)) p of
                              Inl err \<Rightarrow> err | Inr nd \<Rightarrow> NotADirectoryError)),
            w\<lparr>trace := trace w @ [Chdir p]\<rparr>))"
  by (simp add: os_chdir_def record_action_def Let_def split: sum.splits node.splits)

lemma resolve_Dir: "es p = Some Dir \<Longrightarrow> resolve (Suc n) es p = Inr Dir"
  by simp

lemma resolve_40_Dir: "es p = Some Dir \<Longrightarrow> resolve 40 es p = Inr Dir"
  using resolve_Dir [of es p 39] by simp

lemma resolve_None: "es p = None \<Longrightarrow> resolve (Suc n) es p = Inl FileNotFoundError"
  by simp

lemma resolve_40_None: "es p = None \<Longrightarrow> resolve 40 es p = Inl FileNotFoundError"
  using resolve_None [of es p 39] by simp

text \<open>The two commands inside \<^verbatim>\<open>shell.pushd\<close>, case by case.\<close>

lemma pushd_two_calls:
  "shell_pushd d (seq (shell_call e c1 Inherit) (\<lambda>_. shell_call e c2 Inherit)) w =
     (let r1 = tool e d c1 Inherit (fs w); r2 = tool e d c2 Inherit (snd r1) in
      if resolve 40 (entries (fs w)) d \<noteq> Inr Dir
      then (Raise (OSError (case resolve 40 (entries (fs w)) d of
                              Inl err \<Rightarrow> err | Inr nd \<Rightarrow> NotADirectoryError)),
            w\<lparr>trace := trace w @ [Chdir d]\<rparr>)
      else if fst r1 \<noteq> 0
      then (Raise (ToolFailure c1 (fst r1)),
            w\<lparr>cwd := d, fs := snd r1, trace := trace w @ [Chdir d, Run d c1 Inherit (fst r1)]\<rparr>)
      else if fst r2 \<noteq> 0
      then (Raise (ToolFailure c2 (fst r2)),
            w\<lparr>cwd := d, fs := snd r2,
              trace := trace w @ [Chdir d, Run d c1 Inherit 0, Run d c2 Inherit (fst r2)]\<rparr>)
      else (Ok (),
            w\<lparr>fs := snd r2,
              trace := trace w @ [Chdir d, Run d c1 Inherit 0, Run d c2 Inherit 0,
                                  Chdir (cwd w)]\<rparr>))"
  by (simp add: shell_pushd_def seq_alt os_chdir_eq shell_call_eq record_action_def Let_def)

text \<open>The binding-layer build after its host-target dispatch, and the runtime-library
  build in each of its outcomes.\<close>

lemma apis_build_unfold:
  assumes "startswith host_target ''macosx'' \<or> startswith host_target ''linux''"
  shows "\<exists>options.
    TensorFlowSwiftAPIs_build e self host_target w =
      shell_pushd (build_dir self)
        (seq (shell_call e (cmake (toolchain self) # ''-G'' # ''Ninja'' # options) Inherit)
             (\<lambda>_. shell_call e [cmake (toolchain self), ''--build'', build_dir self] Inherit))
        (snd (try_except_OSError (os_makedirs (build_dir self)) w))"
  using assms
  by (auto simp add: TensorFlowSwiftAPIs_build_def Let_def seq_alt try_makedirs_eq)

lemma apis_build_unknown:
  assumes "\<not> startswith host_target ''macosx''" "\<not> startswith host_target ''linux''"
  shows "TensorFlowSwiftAPIs_build e self host_target w =
      (Raise (RuntimeError (''Unknown host target '' @ host_target)), w)"
  using assms by (simp add: TensorFlowSwiftAPIs_build_def Let_def seq_alt)

lemma TensorFlow_build_outcome:
  "let yes = [''yes'', ''''];
       configure = [os_path_join (source_dir self) [''configure'']];
       bazel_build = [bazel (toolchain self), ''build'', ''-c'', ''opt'',
          ''--define'', ''framework_shared_object=false'', ''//tensorflow:tensorflow''];
       r1 = tool e (cwd w) configure (Stdout (Process yes)) (fs w);
       r2 = tool e (cwd w) bazel_build Inherit (snd r1)
   in if fst r1 \<noteq> 0
      then TensorFlow_build e self host_target w =
        (Raise (ToolFailure configure (fst r1)),
         w\<lparr>fs := snd r1,
           trace := trace w @ [Spawn yes, Run (cwd w) configure (Stdout (Process yes)) (fst r1)]\<rparr>)
      else if fst r2 \<noteq> 0
      then TensorFlow_build e self host_target w =
        (Raise (ToolFailure bazel_build (fst r2)),
         w\<lparr>fs := snd r2,
           trace := trace w @ [Spawn yes, Run (cwd w) configure (Stdout (Process yes)) 0,
                               Run (cwd w) bazel_build Inherit (fst r2)]\<rparr>)
      else if \<not> startswith host_target ''macosx'' \<and> \<not> startswith host_target ''linux''
      then TensorFlow_build e self host_target w =
        (Raise (RuntimeError (''unknown host target '' @ host_target)),
         w\<lparr>fs := snd r2,
           trace := trace w @ [Spawn yes, Run (cwd w) configure (Stdout (Process yes)) 0,
                               Run (cwd w) bazel_build Inherit 0]\<rparr>)
      else (\<exists>target link.
        trace (snd (TensorFlow_build e self host_target w)) =
          trace w @ [Spawn yes, Run (cwd w) configure (Stdout (Process yes)) 0,
                     Run (cwd w) bazel_build Inherit 0, Unlink link, Symlink target link])"
  by (simp add: TensorFlow_build_def Let_def seq_alt shell_Popen_def shell_call_eq
      record_action_def trace_os_symlink trace_os_unlink try_unlink_Ok trace_try_except_OSError)


lemma os_symlink_eq:
  "os_symlink s d w =
     (if entries (fs w) d = None \<and> \<not> locked (fs w) d
      then (Ok (), set_entry d (Some (Link s)) (record_action (Symlink s d) w))
      else (Raise (OSError (if entries (fs w) d \<noteq> None then FileExistsError
                            else PermissionError)),
            record_action (Symlink s d) w))"
  by (simp add: os_symlink_def Let_def split: option.splits)

lemma os_symlink_no_RuntimeError:
  "fst (os_symlink s d w) \<noteq> Raise (RuntimeError msg)"
  by (simp add: os_symlink_eq)

lemma TensorFlow_build_known_result:
  assumes "startswith host_target ''macosx'' \<or> startswith host_target ''linux''"
  shows "fst (TensorFlow_build e self host_target w) \<noteq> Raise (RuntimeError msg)"
  using assms
  by (auto simp add: TensorFlow_build_def Let_def seq_alt shell_Popen_def shell_call_eq
      try_unlink_Ok os_symlink_no_RuntimeError)

lemma apis_build_known_result:
  assumes "startswith host_target ''macosx'' \<or> startswith host_target ''linux''"
  shows "fst (TensorFlowSwiftAPIs_build e self host_target w) \<noteq> Raise (RuntimeError msg)"
proof -
  from apis_build_unfold [OF assms] obtain options where
    "TensorFlowSwiftAPIs_build e self host_target w =
      shell_pushd (build_dir self)
        (seq (shell_call e (cmake (toolchain self) # ''-G'' # ''Ninja'' # options) Inherit)
             (\<lambda>_. shell_call e [cmake (toolchain self), ''--build'', build_dir self] Inherit))
        (snd (try_except_OSError (os_makedirs (build_dir self)) w))"
    by blast
  then show ?thesis
    by (simp add: pushd_two_calls Let_def)
qed




lemma try_makedirs_trace:
  "trace (snd (try_except_OSError (os_makedirs p) w)) = trace w @ [Makedirs p]"
  by (simp add: try_makedirs_eq set_entry_def record_action_def)

lemma try_makedirs_cwd:
  "cwd (snd (try_except_OSError (os_makedirs p) w)) = cwd w"
  by (simp add: try_makedirs_eq set_entry_def record_action_def)

lemma apis_build_outcome:
  assumes "startswith host_target ''macosx'' \<or> startswith host_target ''linux''"
  shows "\<exists>options.
    (let d = build_dir self;
         c1 = cmake (toolchain self) # ''-G'' # ''Ninja'' # options;
         c2 = [cmake (toolchain self), ''--build'', build_dir self];
         w1 = snd (try_except_OSError (os_makedirs d) w);
         r1 = tool e d c1 Inherit (fs w1);
         r2 = tool e d c2 Inherit (snd r1)
     in TensorFlowSwiftAPIs_build e self host_target w =
       (if resolve 40 (entries (fs w1)) d \<noteq> Inr Dir
        then (Raise (OSError (case resolve 40 (entries (fs w1)) d of
                                Inl err \<Rightarrow> err | Inr nd \<Rightarrow> NotADirectoryError)),
              w1\<lparr>trace := trace w @ [Makedirs d, Chdir d]\<rparr>)
        else if fst r1 \<noteq> 0
        then (Raise (ToolFailure c1 (fst r1)),
              w1\<lparr>cwd := d, fs := snd r1,
                trace := trace w @ [Makedirs d, Chdir d, Run d c1 Inherit (fst r1)]\<rparr>)
        else if fst r2 \<noteq> 0
        then (Raise (ToolFailure c2 (fst r2)),
              w1\<lparr>cwd := d, fs := snd r2,
                trace := trace w @ [Makedirs d, Chdir d, Run d c1 Inherit 0,
                                    Run d c2 Inherit (fst r2)]\<rparr>)
        else (Ok (),
              w1\<lparr>fs := snd r2,
                trace := trace w @ [Makedirs d, Chdir d, Run d c1 Inherit 0,
                                    Run d c2 Inherit 0, Chdir (cwd w)]\<rparr>)))"
proof -
  from apis_build_unfold [OF assms] obtain options where
    "TensorFlowSwiftAPIs_build e self host_target w =
      shell_pushd (build_dir self)
        (seq (shell_call e (cmake (toolchain self) # ''-G'' # ''Ninja'' # options) Inherit)
             (\<lambda>_. shell_call e [cmake (toolchain self), ''--build'', build_dir self] Inherit))
        (snd (try_except_OSError (os_makedirs (build_dir self)) w))"
    by blast
  then have "let d = build_dir self;
         c1 = cmake (toolchain self) # ''-G'' # ''Ninja'' # options;
         c2 = [cmake (toolchain self), ''--build'', build_dir self];
         w1 = snd (try_except_OSError (os_makedirs d) w);
         r1 = tool e d c1 Inherit (fs w1);
         r2 = tool e d c2 Inherit (snd r1)
     in TensorFlowSwiftAPIs_build e self host_target w =
       (if resolve 40 (entries (fs w1)) d \<noteq> Inr Dir
        then (Raise (OSError (case resolve 40 (entries (fs w1)) d of
                                Inl err \<Rightarrow> err | Inr nd \<Rightarrow> NotADirectoryError)),
              w1\<lparr>trace := trace w @ [Makedirs d, Chdir d]\<rparr>)
        else if fst r1 \<noteq> 0
        then (Raise (ToolFailure c1 (fst r1)),
              w1\<lparr>cwd := d, fs := snd r1,
                trace := trace w @ [Makedirs d, Chdir d, Run d c1 Inherit (fst r1)]\<rparr>)
        else if fst r2 \<noteq> 0
        then (Raise (ToolFailure c2 (fst r2)),
              w1\<lparr>cwd := d, fs := snd r2,
                trace := trace w @ [Makedirs d, Chdir d, Run d c1 Inherit 0,
                                    Run d c2 Inherit (fst r2)]\<rparr>)
        else (Ok (),
              w1\<lparr>fs := snd r2,
                trace := trace w @ [Makedirs d, Chdir d, Run d c1 Inherit 0,
                                    Run d c2 Inherit 0, Chdir (cwd w)]\<rparr>))"
    by (simp add: pushd_two_calls Let_def try_makedirs_trace try_makedirs_cwd)
  then show ?thesis by blast
qed

lemma apis_build_enters:
  assumes "startswith host_target ''macosx'' \<or> startswith host_target ''linux''"
    and "resolve 40 (entries (fs (snd (try_except_OSError (os_makedirs (build_dir self)) w))))
           (build_dir self) = Inr Dir"
  shows "\<exists>options st rest.
    trace (snd (TensorFlowSwiftAPIs_build e self host_target w)) =
      trace w @ Makedirs (build_dir self) # Chdir (build_dir self) #
        Run (build_dir self) (cmake (toolchain self) # ''-G'' # ''Ninja'' # options) Inherit st
        # rest"
proof -
  from apis_build_outcome [OF assms(1), where self = self and e = e and w = w] obtain options where
    o: "let d = build_dir self;
         c1 = cmake (toolchain self) # ''-G'' # ''Ninja'' # options;
         c2 = [cmake (toolchain self), ''--build'', build_dir self];
         w1 = snd (try_except_OSError (os_makedirs d) w);
         r1 = tool e d c1 Inherit (fs w1);
         r2 = tool e d c2 Inherit (snd r1)
     in TensorFlowSwiftAPIs_build e self host_target w =
       (if resolve 40 (entries (fs w1)) d \<noteq> Inr Dir
        then (Raise (OSError (case resolve 40 (entries (fs w1)) d of
                                Inl err \<Rightarrow> err | Inr nd \<Rightarrow> NotADirectoryError)),
              w1\<lparr>trace := trace w @ [Makedirs d, Chdir d]\<rparr>)
        else if fst r1 \<noteq> 0
        then (Raise (ToolFailure c1 (fst r1)),
              w1\<lparr>cwd := d, fs := snd r1,
                trace := trace w @ [Makedirs d, Chdir d, Run d c1 Inherit (fst r1)]\<rparr>)
        else if fst r2 \<noteq> 0
        then (Raise (ToolFailure c2 (fst r2)),
              w1\<lparr>cwd := d, fs := snd r2,
                trace := trace w @ [Makedirs d, Chdir d, Run d c1 Inherit 0,
                                    Run d c2 Inherit (fst r2)]\<rparr>)
        else (Ok (),
              w1\<lparr>fs := snd r2,
                trace := trace w @ [Makedirs d, Chdir d, Run d c1 Inherit 0,
                                    Run d c2 Inherit 0, Chdir (cwd w)]\<rparr>))"
    by blast
  show ?thesis
    using o assms(2)
    by (intro exI [of _ options]) (simp add: Let_def split: if_splits)
qed

lemma apis_build_cannot_enter:
  assumes "startswith host_target ''macosx'' \<or> startswith host_target ''linux''"
    and "resolve 40 (entries (fs (snd (try_except_OSError (os_makedirs (build_dir self)) w))))
           (build_dir self) \<noteq> Inr Dir"
  shows "TensorFlowSwiftAPIs_build e self host_target w =
     (Raise (OSError (case resolve 40
          (entries (fs (snd (try_except_OSError (os_makedirs (build_dir self)) w))))
          (build_dir self) of Inl err \<Rightarrow> err | Inr nd \<Rightarrow> NotADirectoryError)),
      (snd (try_except_OSError (os_makedirs (build_dir self)) w))
        \<lparr>trace := trace w @ [Makedirs (build_dir self), Chdir (build_dir self)]\<rparr>)"
proof -
  from apis_build_outcome [OF assms(1), where self = self and e = e and w = w] obtain options where
    o: "let d = build_dir self;
         c1 = cmake (toolchain self) # ''-G'' # ''Ninja'' # options;
         c2 = [cmake (toolchain self), ''--build'', build_dir self];
         w1 = snd (try_except_OSError (os_makedirs d) w);
         r1 = tool e d c1 Inherit (fs w1);
         r2 = tool e d c2 Inherit (snd r1)
     in TensorFlowSwiftAPIs_build e self host_target w =
       (if resolve 40 (entries (fs w1)) d \<noteq> Inr Dir
        then (Raise (OSError (case resolve 40 (entries (fs w1)) d of
                                Inl err \<Rightarrow> err | Inr nd \<Rightarrow> NotADirectoryError)),
              w1\<lparr>trace := trace w @ [Makedirs d, Chdir d]\<rparr>)
        else if fst r1 \<noteq> 0
        then (Raise (ToolFailure c1 (fst r1)),
              w1\<lparr>cwd := d, fs := snd r1,
                trace := trace w @ [Makedirs d, Chdir d, Run d c1 Inherit (fst r1)]\<rparr>)
        else if fst r2 \<noteq> 0
        then (Raise (ToolFailure c2 (fst r2)),
              w1\<lparr>cwd := d, fs := snd r2,
                trace := trace w @ [Makedirs d, Chdir d, Run d c1 Inherit 0,
                                    Run d c2 Inherit (fst r2)]\<rparr>)
        else (Ok (),
              w1\<lparr>fs := snd r2,
                trace := trace w @ [Makedirs d, Chdir d, Run d c1 Inherit 0,
                                    Run d c2 Inherit 0, Chdir (cwd w)]\<rparr>))"
    by blast
  show ?thesis
    using o assms(2) by (simp add: Let_def)
qed

lemma os_makedirs_raises:
  assumes "fst (os_makedirs p w) = Raise (OSError err)"
  shows "try_except_OSError (os_makedirs p) w = (Ok (), record_action (Makedirs p) w)"
  using assms
  by (simp add: try_except_OSError_def os_makedirs_def Let_def split: option.splits if_splits)

lemma os_makedirs_exists:
  assumes "entries (fs w) p = Some n"
  shows "os_makedirs p w = (Raise (OSError FileExistsError), record_action (Makedirs p) w)"
  using assms by (simp add: os_makedirs_def Let_def)

lemma fs_record_action: "fs (record_action a w) = fs w"
  by (simp add: record_action_def)

lemma try_makedirs_twice:
  "fs (snd (try_except_OSError (os_makedirs p) (snd (try_except_OSError (os_makedirs p) w)))) =
   fs (snd (try_except_OSError (os_makedirs p) w))"
  by (simp add: try_makedirs_eq set_entry_def record_action_def)

text \<open>A command that failed, in a list of actions whose commands before the last all
  succeeded, is the last action.\<close>

lemma failing_run_is_last:
  assumes "acts = before @ Run d argv i st # after" and "st \<noteq> 0"
    and "\<forall>a \<in> set (butlast acts). \<forall>d' c i' s. a = Run d' c i' s \<longrightarrow> s = 0"
  shows "after = []" and "Run d argv i st = last acts"
proof -
  show "after = []"
  proof (cases after)
    case Nil
    then show ?thesis .
  next
    case (Cons a as)
    with assms(1) have "Run d argv i st \<in> set (butlast acts)"
      by (simp add: butlast_append)
    with assms(3) have "st = 0" by blast
    with assms(2) show ?thesis by simp
  qed
  with assms(1) show "Run d argv i st = last acts" by simp
qed

lemma install_aborts:
  assumes "trace (snd (TensorFlowSwiftAPIs_install e self host_target w)) =
             trace w @ before @ Run d argv i st # after"
    and "st \<noteq> 0"
  shows "after = [] \<and>
    fst (TensorFlowSwiftAPIs_install e self host_target w) = Raise (ToolFailure argv st)"
proof -
  let ?c = "[cmake (toolchain self), ''--build'', build_dir self, ''--target'', ''install'']"
  let ?s = "fst (tool e (cwd w) ?c Inherit (fs w))"
  have acts: "[Run (cwd w) ?c Inherit ?s] = before @ Run d argv i st # after"
    using assms(1) by (simp add: TensorFlowSwiftAPIs_install_def shell_call_eq)
  have quiet: "\<forall>a \<in> set (butlast [Run (cwd w) ?c Inherit ?s]).
      \<forall>d' c i' s. a = Run d' c i' s \<longrightarrow> s = 0"
    by simp
  from failing_run_is_last [OF acts assms(2) quiet]
  have l: "after = []" and "Run d argv i st = last [Run (cwd w) ?c Inherit ?s]"
    by blast+
  then have "argv = ?c" "st = ?s" by simp_all
  then show ?thesis
    using l assms(2) by (simp add: TensorFlowSwiftAPIs_install_def shell_call_eq)
qed

lemma TensorFlow_build_aborts:
  assumes "trace (snd (TensorFlow_build e self host_target w)) =
             trace w @ before @ Run d argv i st # after"
    and "st \<noteq> 0"
  shows "after = [] \<and> fst (TensorFlow_build e self host_target w) = Raise (ToolFailure argv st)"
proof -
  let ?yes = "[''yes'', '''']"
  let ?c1 = "[os_path_join (source_dir self) [''configure'']]"
  let ?c2 = "[bazel (toolchain self), ''build'', ''-c'', ''opt'',
          ''--define'', ''framework_shared_object=false'', ''//tensorflow:tensorflow'']"
  let ?r1 = "tool e (cwd w) ?c1 (Stdout (Process ?yes)) (fs w)"
  let ?r2 = "tool e (cwd w) ?c2 Inherit (snd ?r1)"
  note o = TensorFlow_build_outcome [of self e w host_target, unfolded Let_def]
  consider (a) "fst ?r1 \<noteq> 0" | (b) "fst ?r1 = 0" "fst ?r2 \<noteq> 0"
    | (c) "fst ?r1 = 0" "fst ?r2 = 0"
        "\<not> startswith host_target ''macosx'' \<and> \<not> startswith host_target ''linux''"
    | (d) "fst ?r1 = 0" "fst ?r2 = 0"
        "\<not> (\<not> startswith host_target ''macosx'' \<and> \<not> startswith host_target ''linux'')"
    by blast
  then show ?thesis
  proof cases
    case a
    let ?acts = "[Spawn ?yes, Run (cwd w) ?c1 (Stdout (Process ?yes)) (fst ?r1)]"
    from a o have b: "TensorFlow_build e self host_target w =
        (Raise (ToolFailure ?c1 (fst ?r1)), w\<lparr>fs := snd ?r1, trace := trace w @ ?acts\<rparr>)"
      by simp
    with assms(1) have acts: "?acts = before @ Run d argv i st # after"
      by simp
    have quiet: "\<forall>a \<in> set (butlast ?acts). \<forall>d' c i' s. a = Run d' c i' s \<longrightarrow> s = 0"
      by simp
    from failing_run_is_last [OF acts assms(2) quiet]
    have l: "after = []" and "Run d argv i st = last ?acts"
      by blast+
    then have "argv = ?c1" "st = fst ?r1" by simp_all
    then show ?thesis
      using l by (simp add: b)
  next
    case b
    let ?acts = "[Spawn ?yes, Run (cwd w) ?c1 (Stdout (Process ?yes)) 0,
                  Run (cwd w) ?c2 Inherit (fst ?r2)]"
    from b o have e: "TensorFlow_build e self host_target w =
        (Raise (ToolFailure ?c2 (fst ?r2)), w\<lparr>fs := snd ?r2, trace := trace w @ ?acts\<rparr>)"
      by simp
    with assms(1) have acts: "?acts = before @ Run d argv i st # after"
      by simp
    have quiet: "\<forall>a \<in> set (butlast ?acts). \<forall>d' c i' s. a = Run d' c i' s \<longrightarrow> s = 0"
      by simp
    from failing_run_is_last [OF acts assms(2) quiet]
    have l: "after = []" and "Run d argv i st = last ?acts"
      by blast+
    then have "argv = ?c2" "st = fst ?r2" by simp_all
    then show ?thesis
      using l by (simp add: e)
  next
    case c
    let ?acts = "[Spawn ?yes, Run (cwd w) ?c1 (Stdout (Process ?yes)) 0,
                  Run (cwd w) ?c2 Inherit 0]"
    from c o have e: "TensorFlow_build e self host_target w =
        (Raise (RuntimeError (''unknown host target '' @ host_target)),
         w\<lparr>fs := snd ?r2, trace := trace w @ ?acts\<rparr>)"
      by simp
    with assms(1) have acts: "?acts = before @ Run d argv i st # after"
      by simp
    have quiet: "\<forall>a \<in> set (butlast ?acts). \<forall>d' c i' s. a = Run d' c i' s \<longrightarrow> s = 0"
      by simp
    from failing_run_is_last(2) [OF acts assms(2) quiet]
    have "st = 0" by simp
    with assms(2) show ?thesis by simp
  next
    case d
    with o obtain target link where
      "trace (snd (TensorFlow_build e self host_target w)) =
          trace w @ [Spawn ?yes, Run (cwd w) ?c1 (Stdout (Process ?yes)) 0,
                     Run (cwd w) ?c2 Inherit 0, Unlink link, Symlink target link]"
      by auto
    with assms(1) have acts: "[Spawn ?yes, Run (cwd w) ?c1 (Stdout (Process ?yes)) 0,
                     Run (cwd w) ?c2 Inherit 0, Unlink link, Symlink target link] =
        before @ Run d argv i st # after"
      by simp
    have quiet: "\<forall>a \<in> set (butlast [Spawn ?yes, Run (cwd w) ?c1 (Stdout (Process ?yes)) 0,
                     Run (cwd w) ?c2 Inherit 0, Unlink link, Symlink target link]).
        \<forall>d' c i' s. a = Run d' c i' s \<longrightarrow> s = 0"
      by simp
    from failing_run_is_last(2) [OF acts assms(2) quiet]
    show ?thesis by simp
  qed
qed

lemma apis_build_aborts:
  assumes "trace (snd (TensorFlowSwiftAPIs_build e self host_target w)) =
             trace w @ before @ Run d argv i st # after"
    and "st \<noteq> 0"
  shows "after = [] \<and>
    fst (TensorFlowSwiftAPIs_build e self host_target w) = Raise (ToolFailure argv st)"
proof (cases "startswith host_target ''macosx'' \<or> startswith host_target ''linux''")
  case False
  then have "TensorFlowSwiftAPIs_build e self host_target w =
      (Raise (RuntimeError (''Unknown host target '' @ host_target)), w)"
    by (simp add: apis_build_unknown)
  with assms(1) show ?thesis by simp
next
  case True
  from apis_build_outcome [OF True, where self = self and e = e and w = w, unfolded Let_def]
  obtain options where
    o: "TensorFlowSwiftAPIs_build e self host_target w =
       (if resolve 40
             (entries (fs (snd (try_except_OSError (os_makedirs (build_dir self)) w))))
             (build_dir self) \<noteq> Inr Dir
        then (Raise (OSError (case resolve 40
                (entries (fs (snd (try_except_OSError (os_makedirs (build_dir self)) w))))
                (build_dir self) of Inl err \<Rightarrow> err | Inr nd \<Rightarrow> NotADirectoryError)),
              (snd (try_except_OSError (os_makedirs (build_dir self)) w))
                \<lparr>trace := trace w @ [Makedirs (build_dir self), Chdir (build_dir self)]\<rparr>)
        else if fst (tool e (build_dir self)
                  (cmake (toolchain self) # ''-G'' # ''Ninja'' # options) Inherit
                  (fs (snd (try_except_OSError (os_makedirs (build_dir self)) w)))) \<noteq> 0
        then (Raise (ToolFailure (cmake (toolchain self) # ''-G'' # ''Ninja'' # options)
                (fst (tool e (build_dir self)
                  (cmake (toolchain self) # ''-G'' # ''Ninja'' # options) Inherit
                  (fs (snd (try_except_OSError (os_makedirs (build_dir self)) w)))))),
              (snd (try_except_OSError (os_makedirs (build_dir self)) w))
                \<lparr>cwd := build_dir self,
                  fs := snd (tool e (build_dir self)
                    (cmake (toolchain self) # ''-G'' # ''Ninja'' # options) Inherit
                    (fs (snd (try_except_OSError (os_makedirs (build_dir self)) w)))),
                  trace := trace w @ [Makedirs (build_dir self), Chdir (build_dir self),
                    Run (build_dir self)
                      (cmake (toolchain self) # ''-G'' # ''Ninja'' # options) Inherit
                      (fst (tool e (build_dir self)
                        (cmake (toolchain self) # ''-G'' # ''Ninja'' # options) Inherit
                        (fs (snd (try_except_OSError (os_makedirs (build_dir self)) w)))))]\<rparr>)
        else if fst (tool e (build_dir self)
                  [cmake (toolchain self), ''--build'', build_dir self] Inherit
                  (snd (tool e (build_dir self)
                    (cmake (toolchain self) # ''-G'' # ''Ninja'' # options) Inherit
                    (fs (snd (try_except_OSError (os_makedirs (build_dir self)) w)))))) \<noteq> 0
        then (Raise (ToolFailure [cmake (toolchain self), ''--build'', build_dir self]
                (fst (tool e (build_dir self)
                  [cmake (toolchain self), ''--build'', build_dir self] Inherit
                  (snd (tool e (build_dir self)
                    (cmake (toolchain self) # ''-G'' # ''Ninja'' # options) Inherit
                    (fs (snd (try_except_OSError (os_makedirs (build_dir self)) w)))))))),
              (snd (try_except_OSError (os_makedirs (build_dir self)) w))
                \<lparr>cwd := build_dir self,
                  fs := snd (tool e (build_dir self)
                    [cmake (toolchain self), ''--build'', build_dir self] Inherit
                    (snd (tool e (build_dir self)
                      (cmake (toolchain self) # ''-G'' # ''Ninja'' # options) Inherit
                      (fs (snd (try_except_OSError (os_makedirs (build_dir self)) w)))))),
                  trace := trace w @ [Makedirs (build_dir self), Chdir (build_dir self),
                    Run (build_dir self)
                      (cmake (toolchain self) # ''-G'' # ''Ninja'' # options) Inherit 0,
                    Run (build_dir self)
                      [cmake (toolchain self), ''--build'', build_dir self] Inherit
                      (fst (tool e (build_dir self)
                        [cmake (toolchain self), ''--build'', build_dir self] Inherit
                        (snd (tool e (build_dir self)
                          (cmake (toolchain self) # ''-G'' # ''Ninja'' # options) Inherit
                          (fs (snd (try_except_OSError
                                 (os_makedirs (build_dir self)) w)))))))]\<rparr>)
        else (Ok (),
              (snd (try_except_OSError (os_makedirs (build_dir self)) w))
                \<lparr>fs := snd (tool e (build_dir self)
                    [cmake (toolchain self), ''--build'', build_dir self] Inherit
                    (snd (tool e (build_dir self)
                      (cmake (toolchain self) # ''-G'' # ''Ninja'' # options) Inherit
                      (fs (snd (try_except_OSError (os_makedirs (build_dir self)) w)))))),
                  trace := trace w @ [Makedirs (build_dir self), Chdir (build_dir self),
                    Run (build_dir self)
                      (cmake (toolchain self) # ''-G'' # ''Ninja'' # options) Inherit 0,
                    Run (build_dir self)
                      [cmake (toolchain self), ''--build'', build_dir self] Inherit 0,
                    Chdir (cwd w)]\<rparr>))"
    by blast
  let ?bd = "build_dir self"
  let ?w1 = "snd (try_except_OSError (os_makedirs ?bd) w)"
  let ?c1 = "cmake (toolchain self) # ''-G'' # ''Ninja'' # options"
  let ?c2 = "[cmake (toolchain self), ''--build'', build_dir self]"
  let ?r1 = "tool e ?bd ?c1 Inherit (fs ?w1)"
  let ?r2 = "tool e ?bd ?c2 Inherit (snd ?r1)"
  consider (n) "resolve 40 (entries (fs ?w1)) ?bd \<noteq> Inr Dir"
    | (a) "resolve 40 (entries (fs ?w1)) ?bd = Inr Dir" "fst ?r1 \<noteq> 0"
    | (b) "resolve 40 (entries (fs ?w1)) ?bd = Inr Dir" "fst ?r1 = 0" "fst ?r2 \<noteq> 0"
    | (c) "resolve 40 (entries (fs ?w1)) ?bd = Inr Dir" "fst ?r1 = 0" "fst ?r2 = 0"
    by blast
  then show ?thesis
  proof cases
    case n
    let ?acts = "[Makedirs ?bd, Chdir ?bd]"
    from n o have t: "trace (snd (TensorFlowSwiftAPIs_build e self host_target w)) =
        trace w @ ?acts"
      by simp
    with assms(1) have acts: "?acts = before @ Run d argv i st # after"
      by simp
    have quiet: "\<forall>a \<in> set (butlast ?acts). \<forall>d' c i' s. a = Run d' c i' s \<longrightarrow> s = 0"
      by simp
    from failing_run_is_last(2) [OF acts assms(2) quiet]
    show ?thesis by simp
  next
    case a
    let ?acts = "[Makedirs ?bd, Chdir ?bd, Run ?bd ?c1 Inherit (fst ?r1)]"
    from a o have t: "trace (snd (TensorFlowSwiftAPIs_build e self host_target w)) =
        trace w @ ?acts"
      and r: "fst (TensorFlowSwiftAPIs_build e self host_target w) =
        Raise (ToolFailure ?c1 (fst ?r1))"
      by simp_all
    from t assms(1) have acts: "?acts = before @ Run d argv i st # after"
      by simp
    have quiet: "\<forall>a \<in> set (butlast ?acts). \<forall>d' c i' s. a = Run d' c i' s \<longrightarrow> s = 0"
      by simp
    from failing_run_is_last [OF acts assms(2) quiet]
    have l: "after = []" and "Run d argv i st = last ?acts"
      by blast+
    then have "argv = ?c1" "st = fst ?r1" by simp_all
    then show ?thesis
      using l by (simp add: r)
  next
    case b
    let ?acts = "[Makedirs ?bd, Chdir ?bd, Run ?bd ?c1 Inherit 0,
                  Run ?bd ?c2 Inherit (fst ?r2)]"
    from b o have t: "trace (snd (TensorFlowSwiftAPIs_build e self host_target w)) =
        trace w @ ?acts"
      and r: "fst (TensorFlowSwiftAPIs_build e self host_target w) =
        Raise (ToolFailure ?c2 (fst ?r2))"
      by simp_all
    from t assms(1) have acts: "?acts = before @ Run d argv i st # after"
      by simp
    have quiet: "\<forall>a \<in> set (butlast ?acts). \<forall>d' c i' s. a = Run d' c i' s \<longrightarrow> s = 0"
      by simp
    from failing_run_is_last [OF acts assms(2) quiet]
    have l: "after = []" and "Run d argv i st = last ?acts"
      by blast+
    then have "argv = ?c2" "st = fst ?r2" by simp_all
    then show ?thesis
      using l by (simp add: r)
  next
    case c
    let ?acts = "[Makedirs ?bd, Chdir ?bd, Run ?bd ?c1 Inherit 0,
                  Run ?bd ?c2 Inherit 0, Chdir (cwd w)]"
    from c o have t: "trace (snd (TensorFlowSwiftAPIs_build e self host_target w)) =
        trace w @ ?acts"
      by simp
    with assms(1) have acts: "?acts = before @ Run d argv i st # after"
      by simp
    have quiet: "\<forall>a \<in> set (butlast ?acts). \<forall>d' c i' s. a = Run d' c i' s \<longrightarrow> s = 0"
      by simp
    from failing_run_is_last(2) [OF acts assms(2) quiet]
    show ?thesis by simp
  qed
qed

section \<open>The runtime-library adapter's build\<close>





section \<open>The binding-layer adapter's build and install\<close>



section \<open>The build-directory step\<close>

text \<open>
  C5: when the build directory already exists, \<^verbatim>\<open>os.makedirs\<close> raises
  \<^verbatim>\<open>FileExistsError\<close>, the \<^verbatim>\<open>except OSError\<close> clause ignores it, the step completes
  with the file system untouched, and \<^verbatim>\<open>TensorFlowSwiftAPIs.build\<close> goes on to
  change into the directory and to run the CMake generator there. In any world the step
  can be repeated: the second run completes too and leaves the file system of the first.
\<close>

theorem makedirs_step_idempotent:
  "((startswith host_target ''macosx'' \<or> startswith host_target ''linux'')
    \<and> entries (fs w) (build_dir self) = Some Dir \<longrightarrow>
      os_makedirs (build_dir self) w =
        (Raise (OSError FileExistsError), record_action (Makedirs (build_dir self)) w)
      \<and> try_except_OSError (os_makedirs (build_dir self)) w =
        (Ok (), record_action (Makedirs (build_dir self)) w)
      \<and> (\<exists>options st rest.
          trace (snd (TensorFlowSwiftAPIs_build e self host_target w)) =
            trace w @ Makedirs (build_dir self) # Chdir (build_dir self) #
              Run (build_dir self) (cmake (toolchain self) # ''-G'' # ''Ninja'' # options)
                Inherit st # rest))
   \<and> fst (try_except_OSError (os_makedirs (build_dir self))
            (snd (try_except_OSError (os_makedirs (build_dir self)) w))) = Ok ()
   \<and> fs (snd (try_except_OSError (os_makedirs (build_dir self))
            (snd (try_except_OSError (os_makedirs (build_dir self)) w)))) =
       fs (snd (try_except_OSError (os_makedirs (build_dir self)) w))"
proof (intro conjI impI)
  assume a: "(startswith host_target ''macosx'' \<or> startswith host_target ''linux'')
    \<and> entries (fs w) (build_dir self) = Some Dir"
  then have host: "startswith host_target ''macosx'' \<or> startswith host_target ''linux''"
    and dir: "entries (fs w) (build_dir self) = Some Dir"
    by simp_all
  show r: "os_makedirs (build_dir self) w =
        (Raise (OSError FileExistsError), record_action (Makedirs (build_dir self)) w)"
    using dir by (rule os_makedirs_exists)
  show t: "try_except_OSError (os_makedirs (build_dir self)) w =
        (Ok (), record_action (Makedirs (build_dir self)) w)"
    by (rule os_makedirs_raises [of _ _ FileExistsError]) (simp add: r)
  have "resolve 40 (entries (fs (snd (try_except_OSError (os_makedirs (build_dir self)) w))))
           (build_dir self) = Inr Dir"
    by (rule resolve_40_Dir) (simp add: t fs_record_action dir)
  with host show "\<exists>options st rest.
          trace (snd (TensorFlowSwiftAPIs_build e self host_target w)) =
            trace w @ Makedirs (build_dir self) # Chdir (build_dir self) #
              Run (build_dir self) (cmake (toolchain self) # ''-G'' # ''Ninja'' # options)
                Inherit st # rest"
    by (rule apis_build_enters)
next
  show "fst (try_except_OSError (os_makedirs (build_dir self))
            (snd (try_except_OSError (os_makedirs (build_dir self)) w))) = Ok ()"
    by (simp add: try_makedirs_eq)
  show "fs (snd (try_except_OSError (os_makedirs (build_dir self))
            (snd (try_except_OSError (os_makedirs (build_dir self)) w)))) =
       fs (snd (try_except_OSError (os_makedirs (build_dir self)) w))"
    by (rule try_makedirs_twice)
qed

theorem makedirs_step_idempotent_witness:
  "startswith ''macosx-arm64'' ''macosx''
   \<and> entries (fs built_world) (build_dir demo_apis) = Some Dir
   \<and> try_except_OSError (os_makedirs ''/build/apis'') built_world =
       (Ok (), built_world\<lparr>trace := [Makedirs ''/build/apis'']\<rparr>)
   \<and> (\<exists>options st rest.
        trace (snd (TensorFlowSwiftAPIs_build ok_env demo_apis ''macosx-arm64'' built_world)) =
          Makedirs ''/build/apis'' # Chdir ''/build/apis'' #
            Run ''/build/apis'' (''cmake'' # ''-G'' # ''Ninja'' # options) Inherit st # rest)"
  using makedirs_step_idempotent [of "''macosx-arm64''" built_world demo_apis ok_env]
  by (simp add: startswith_def demo_apis_def demo_tensorflow_def built_world_def
      start_world_def empty_fs_def record_action_def)

text \<open>
  C10, as the code has it: whatever \<^verbatim>\<open>OSError\<close> \<^verbatim>\<open>os.makedirs\<close> raises (the directory
  exists, permission is denied), it is discarded, the file system is as before, and the
  build goes on to change into the build directory. CMake is run exactly when that
  change of directory succeeds, that is when the path leads to a directory; otherwise
  the \<^verbatim>\<open>OSError\<close> of \<^verbatim>\<open>os.chdir\<close> leaves \<^verbatim>\<open>build\<close> and no command is run.
\<close>

theorem makedirs_failure_swallowed:
  "(startswith host_target ''macosx'' \<or> startswith host_target ''linux'')
   \<and> fst (os_makedirs (build_dir self) w) = Raise (OSError err) \<longrightarrow>
     try_except_OSError (os_makedirs (build_dir self)) w =
       (Ok (), record_action (Makedirs (build_dir self)) w)
     \<and> (if resolve 40 (entries (fs w)) (build_dir self) = Inr Dir
        then \<exists>options st rest.
          trace (snd (TensorFlowSwiftAPIs_build e self host_target w)) =
            trace w @ Makedirs (build_dir self) # Chdir (build_dir self) #
              Run (build_dir self) (cmake (toolchain self) # ''-G'' # ''Ninja'' # options)
                Inherit st # rest
        else fst (TensorFlowSwiftAPIs_build e self host_target w) =
               Raise (OSError (case resolve 40 (entries (fs w)) (build_dir self) of
                                 Inl err' \<Rightarrow> err' | Inr nd \<Rightarrow> NotADirectoryError))
             \<and> trace (snd (TensorFlowSwiftAPIs_build e self host_target w)) =
               trace w @ [Makedirs (build_dir self), Chdir (build_dir self)])"
proof (intro impI)
  assume a: "(startswith host_target ''macosx'' \<or> startswith host_target ''linux'')
   \<and> fst (os_makedirs (build_dir self) w) = Raise (OSError err)"
  then have host: "startswith host_target ''macosx'' \<or> startswith host_target ''linux''"
    and raised: "fst (os_makedirs (build_dir self) w) = Raise (OSError err)"
    by simp_all
  have t: "try_except_OSError (os_makedirs (build_dir self)) w =
       (Ok (), record_action (Makedirs (build_dir self)) w)"
    using raised by (rule os_makedirs_raises)
  have f: "fs (snd (try_except_OSError (os_makedirs (build_dir self)) w)) = fs w"
    by (simp add: t fs_record_action)
  show "try_except_OSError (os_makedirs (build_dir self)) w =
       (Ok (), record_action (Makedirs (build_dir self)) w)
     \<and> (if resolve 40 (entries (fs w)) (build_dir self) = Inr Dir
        then \<exists>options st rest.
          trace (snd (TensorFlowSwiftAPIs_build e self host_target w)) =
            trace w @ Makedirs (build_dir self) # Chdir (build_dir self) #
              Run (build_dir self) (cmake (toolchain self) # ''-G'' # ''Ninja'' # options)
                Inherit st # rest
        else fst (TensorFlowSwiftAPIs_build e self host_target w) =
               Raise (OSError (case resolve 40 (entries (fs w)) (build_dir self) of
                                 Inl err' \<Rightarrow> err' | Inr nd \<Rightarrow> NotADirectoryError))
             \<and> trace (snd (TensorFlowSwiftAPIs_build e self host_target w)) =
               trace w @ [Makedirs (build_dir self), Chdir (build_dir self)])"
  proof (cases "resolve 40 (entries (fs w)) (build_dir self) = Inr Dir")
    case True
    then have "resolve 40
        (entries (fs (snd (try_except_OSError (os_makedirs (build_dir self)) w))))
        (build_dir self) = Inr Dir"
      by (simp add: f)
    from apis_build_enters [OF host this] True t show ?thesis
      by simp
  next
    case False
    then have "resolve 40
        (entries (fs (snd (try_except_OSError (os_makedirs (build_dir self)) w))))
        (build_dir self) \<noteq> Inr Dir"
      by (simp add: f)
    from apis_build_cannot_enter [OF host this] False t show ?thesis
      by (simp add: fs_record_action)
  qed
qed

theorem makedirs_failure_swallowed_witness:
  "startswith ''linux-x86_64'' ''linux''
   \<and> fst (os_makedirs (build_dir demo_apis) built_world) = Raise (OSError FileExistsError)
   \<and> resolve 40 (entries (fs built_world)) (build_dir demo_apis) = Inr Dir
   \<and> (\<exists>options st rest.
        trace (snd (TensorFlowSwiftAPIs_build ok_env demo_apis ''linux-x86_64'' built_world)) =
          Makedirs ''/build/apis'' # Chdir ''/build/apis'' #
            Run ''/build/apis'' (''cmake'' # ''-G'' # ''Ninja'' # options) Inherit st # rest)"
proof -
  have h: "startswith ''linux-x86_64'' ''linux''"
    by (simp add: startswith_def)
  have d: "entries (fs built_world) (build_dir demo_apis) = Some Dir"
    by (simp add: demo_apis_def demo_tensorflow_def built_world_def start_world_def
        empty_fs_def)
  have m: "fst (os_makedirs (build_dir demo_apis) built_world) = Raise (OSError FileExistsError)"
    using os_makedirs_exists [OF d] by simp
  have r: "resolve 40 (entries (fs built_world)) (build_dir demo_apis) = Inr Dir"
    using d by (rule resolve_40_Dir)
  show ?thesis
    using h m r
      makedirs_failure_swallowed [of "''linux-x86_64''" demo_apis built_world FileExistsError ok_env]
    by (simp add: demo_apis_def demo_tensorflow_def built_world_def start_world_def
        empty_fs_def)
qed

text \<open>
  The claim as stated fails at its own example: where the build directory does not exist
  and may not be created, \<^verbatim>\<open>os.makedirs\<close> raises \<^verbatim>\<open>PermissionError\<close>, which is
  discarded, and then the change into the missing directory raises
  \<^verbatim>\<open>FileNotFoundError\<close>: the build ends there, and CMake is never invoked.
\<close>

theorem makedirs_failure_swallowed_counterexample:
  "startswith ''linux-x86_64'' ''linux''
   \<and> fst (os_makedirs ''/build/apis'' locked_world) = Raise (OSError PermissionError)
   \<and> TensorFlowSwiftAPIs_build ok_env demo_apis ''linux-x86_64'' locked_world =
       (Raise (OSError FileNotFoundError),
        locked_world\<lparr>trace := [Makedirs ''/build/apis'', Chdir ''/build/apis'']\<rparr>)"
proof -
  have h: "startswith ''linux-x86_64'' ''linux''"
    by (simp add: startswith_def)
  have b: "build_dir demo_apis = ''/build/apis''"
    by (simp add: demo_apis_def demo_tensorflow_def)
  have e0: "trace locked_world = []"
    by (simp add: locked_world_def start_world_def)
  have en: "entries (fs locked_world) ''/build/apis'' = None"
    by (simp add: locked_world_def start_world_def empty_fs_def)
  have lk: "locked (fs locked_world) ''/build/apis''"
    by (simp add: locked_world_def start_world_def empty_fs_def)
  have m: "fst (os_makedirs ''/build/apis'' locked_world) = Raise (OSError PermissionError)"
    by (simp add: os_makedirs_def Let_def en lk)
  have t: "try_except_OSError (os_makedirs ''/build/apis'') locked_world =
      (Ok (), record_action (Makedirs ''/build/apis'') locked_world)"
    by (simp add: try_makedirs_eq en lk)
  have n: "resolve 40
      (entries (fs (snd (try_except_OSError (os_makedirs (build_dir demo_apis)) locked_world))))
      (build_dir demo_apis) = Inl FileNotFoundError"
    unfolding b by (rule resolve_40_None) (simp add: t fs_record_action en)
  then have n': "resolve 40
      (entries (fs (snd (try_except_OSError (os_makedirs (build_dir demo_apis)) locked_world))))
      (build_dir demo_apis) \<noteq> Inr Dir"
    by simp
  have "TensorFlowSwiftAPIs_build ok_env demo_apis ''linux-x86_64'' locked_world =
       (Raise (OSError FileNotFoundError),
        locked_world\<lparr>trace := [Makedirs ''/build/apis'', Chdir ''/build/apis'']\<rparr>)"
    using apis_build_cannot_enter [OF disjI2 [OF h] n', of ok_env]
    by (simp add: n) (simp add: b t e0 record_action_def)
  with h m show ?thesis by simp
qed

section \<open>The host-target dispatch\<close>

text \<open>
  C3, as the code has it: for a host target that starts with neither \<^verbatim>\<open>macosx\<close> nor
  \<^verbatim>\<open>linux\<close>, \<^verbatim>\<open>TensorFlowSwiftAPIs.build\<close> raises
  \<^verbatim>\<open>RuntimeError("Unknown host target ...")\<close> before it does anything, and
  \<^verbatim>\<open>TensorFlow.build\<close> raises \<^verbatim>\<open>RuntimeError("unknown host target ...")\<close> at its
  dispatch, which stands after the configure script and the bazel build: it is reached
  exactly when both have exited with status 0, and a failing one aborts the build with
  its own failure instead. In no case is a library name selected: no link is removed or
  created. A host target with one of the two prefixes passes the dispatch: neither build
  raises a \<^verbatim>\<open>RuntimeError\<close>.
\<close>

theorem unknown_host_target:
  "(\<not> startswith host_target ''macosx'' \<and> \<not> startswith host_target ''linux'' \<longrightarrow>
      TensorFlowSwiftAPIs_build e self host_target w =
        (Raise (RuntimeError (''Unknown host target '' @ host_target)), w)
      \<and> (let yes = [''yes'', ''''];
              configure = [os_path_join (source_dir self) [''configure'']];
              bazel_build = [bazel (toolchain self), ''build'', ''-c'', ''opt'',
                ''--define'', ''framework_shared_object=false'', ''//tensorflow:tensorflow''];
              r1 = tool e (cwd w) configure (Stdout (Process yes)) (fs w);
              r2 = tool e (cwd w) bazel_build Inherit (snd r1)
          in fst (TensorFlow_build e self host_target w) =
               (if fst r1 \<noteq> 0 then Raise (ToolFailure configure (fst r1))
                else if fst r2 \<noteq> 0 then Raise (ToolFailure bazel_build (fst r2))
                else Raise (RuntimeError (''unknown host target '' @ host_target)))
             \<and> trace (snd (TensorFlow_build e self host_target w)) = trace w @
               (if fst r1 \<noteq> 0
                then [Spawn yes, Run (cwd w) configure (Stdout (Process yes)) (fst r1)]
                else if fst r2 \<noteq> 0
                then [Spawn yes, Run (cwd w) configure (Stdout (Process yes)) 0,
                      Run (cwd w) bazel_build Inherit (fst r2)]
                else [Spawn yes, Run (cwd w) configure (Stdout (Process yes)) 0,
                      Run (cwd w) bazel_build Inherit 0])))
   \<and> (startswith host_target ''macosx'' \<or> startswith host_target ''linux'' \<longrightarrow>
        (\<forall>msg. fst (TensorFlowSwiftAPIs_build e self host_target w) \<noteq> Raise (RuntimeError msg)
              \<and> fst (TensorFlow_build e self host_target w) \<noteq> Raise (RuntimeError msg)))"
proof (intro conjI impI allI)
  assume "\<not> startswith host_target ''macosx'' \<and> \<not> startswith host_target ''linux''"
  then have u: "\<not> startswith host_target ''macosx''" "\<not> startswith host_target ''linux''"
    by simp_all
  show "TensorFlowSwiftAPIs_build e self host_target w =
        (Raise (RuntimeError (''Unknown host target '' @ host_target)), w)"
    using u by (rule apis_build_unknown)
  show "let yes = [''yes'', ''''];
              configure = [os_path_join (source_dir self) [''configure'']];
              bazel_build = [bazel (toolchain self), ''build'', ''-c'', ''opt'',
                ''--define'', ''framework_shared_object=false'', ''//tensorflow:tensorflow''];
              r1 = tool e (cwd w) configure (Stdout (Process yes)) (fs w);
              r2 = tool e (cwd w) bazel_build Inherit (snd r1)
          in fst (TensorFlow_build e self host_target w) =
               (if fst r1 \<noteq> 0 then Raise (ToolFailure configure (fst r1))
                else if fst r2 \<noteq> 0 then Raise (ToolFailure bazel_build (fst r2))
                else Raise (RuntimeError (''unknown host target '' @ host_target)))
             \<and> trace (snd (TensorFlow_build e self host_target w)) = trace w @
               (if fst r1 \<noteq> 0
                then [Spawn yes, Run (cwd w) configure (Stdout (Process yes)) (fst r1)]
                else if fst r2 \<noteq> 0
                then [Spawn yes, Run (cwd w) configure (Stdout (Process yes)) 0,
                      Run (cwd w) bazel_build Inherit (fst r2)]
                else [Spawn yes, Run (cwd w) configure (Stdout (Process yes)) 0,
                      Run (cwd w) bazel_build Inherit 0])"
    using u TensorFlow_build_outcome [of self e w host_target]
    by (simp add: Let_def split: if_splits)
next
  fix msg
  assume k: "startswith host_target ''macosx'' \<or> startswith host_target ''linux''"
  show "fst (TensorFlowSwiftAPIs_build e self host_target w) \<noteq> Raise (RuntimeError msg)"
    using k by (rule apis_build_known_result)
  show "fst (TensorFlow_build e self host_target w) \<noteq> Raise (RuntimeError msg)"
    using k by (rule TensorFlow_build_known_result)
qed

theorem unknown_host_target_witness:
  "\<not> startswith ''windows-x86_64'' ''macosx'' \<and> \<not> startswith ''windows-x86_64'' ''linux''
   \<and> TensorFlowSwiftAPIs_build ok_env demo_apis ''windows-x86_64'' start_world =
       (Raise (RuntimeError ''Unknown host target windows-x86_64''), start_world)
   \<and> fst (TensorFlow_build ok_env demo_tensorflow ''windows-x86_64'' start_world) =
       Raise (RuntimeError ''unknown host target windows-x86_64'')
   \<and> startswith ''linux-x86_64'' ''linux''
   \<and> fst (TensorFlow_build ok_env demo_tensorflow ''linux-x86_64'' start_world) \<noteq>
       Raise (RuntimeError ''unknown host target linux-x86_64'')"
proof -
  have a: "\<not> startswith ''windows-x86_64'' ''macosx'' \<and> \<not> startswith ''windows-x86_64'' ''linux''"
    by (simp add: startswith_def)
  have c: "startswith ''linux-x86_64'' ''linux''"
    by (simp add: startswith_def)
  show ?thesis
    using a c
      unknown_host_target [of "''windows-x86_64''" ok_env demo_apis start_world]
      unknown_host_target [of "''windows-x86_64''" ok_env demo_tensorflow start_world]
      unknown_host_target [of "''linux-x86_64''" ok_env demo_tensorflow start_world]
    by (simp add: ok_env_def Let_def)
qed

text \<open>
  The claim as stated fails for \<^verbatim>\<open>TensorFlow.build\<close>: with the host target
  \<^verbatim>\<open>windows-x86_64\<close> and a configure script that exits with status 1, the build ends
  with the failure of that command after two actions, not with a \<^verbatim>\<open>RuntimeError\<close>.
\<close>

theorem unknown_host_target_counterexample:
  "\<not> startswith ''windows-x86_64'' ''macosx'' \<and> \<not> startswith ''windows-x86_64'' ''linux''
   \<and> TensorFlow_build failing_env demo_tensorflow ''windows-x86_64'' start_world =
       (Raise (ToolFailure [''/src/tensorflow/configure''] 1),
        start_world\<lparr>trace := [Spawn [''yes'', ''''],
          Run ''/work'' [''/src/tensorflow/configure''] (Stdout (Process [''yes'', ''''])) 1]\<rparr>)"
  using TensorFlow_build_outcome [of demo_tensorflow failing_env start_world "''windows-x86_64''"]
  by (simp add: startswith_def failing_env_def ok_env_def demo_tensorflow_def start_world_def
      empty_fs_def os_path_join_def join2_def Let_def)

section \<open>Failing tools\<close>

text \<open>
  C6: in \<^verbatim>\<open>TensorFlowSwiftAPIs.build\<close>, \<^verbatim>\<open>TensorFlowSwiftAPIs.install\<close> and
  \<^verbatim>\<open>TensorFlow.build\<close>, for every host target and every world: if a command that the
  method ran (the CMake generator, \<^verbatim>\<open>cmake --build\<close>, the configure script, bazel, the
  install target) exited with a non-zero status, then nothing was done after it, and the
  method ended with the failure of that command.
\<close>

theorem tool_failure_aborts:
  assumes "m = TensorFlowSwiftAPIs_build e self host_target
         \<or> m = TensorFlowSwiftAPIs_install e self host_target
         \<or> m = TensorFlow_build e self host_target"
    and "trace (snd (m w)) = trace w @ before @ Run d argv i st # after"
    and "st \<noteq> 0"
  shows "after = [] \<and> fst (m w) = Raise (ToolFailure argv st)"
proof -
  from assms(1) consider
      (build) "m = TensorFlowSwiftAPIs_build e self host_target"
    | (install) "m = TensorFlowSwiftAPIs_install e self host_target"
    | (runtime) "m = TensorFlow_build e self host_target"
    by blast
  then show ?thesis
  proof cases
    case build
    from assms(2) have "trace (snd (TensorFlowSwiftAPIs_build e self host_target w)) =
        trace w @ before @ Run d argv i st # after"
      unfolding build .
    from apis_build_aborts [OF this assms(3)] show ?thesis
      unfolding build .
  next
    case install
    from assms(2) have "trace (snd (TensorFlowSwiftAPIs_install e self host_target w)) =
        trace w @ before @ Run d argv i st # after"
      unfolding install .
    from install_aborts [OF this assms(3)] show ?thesis
      unfolding install .
  next
    case runtime
    from assms(2) have "trace (snd (TensorFlow_build e self host_target w)) =
        trace w @ before @ Run d argv i st # after"
      unfolding runtime .
    from TensorFlow_build_aborts [OF this assms(3)] show ?thesis
      unfolding runtime .
  qed
qed

theorem tool_failure_aborts_witness:
  "trace (snd (TensorFlow_build failing_env demo_tensorflow ''linux-x86_64'' start_world)) =
     trace start_world @ [Spawn [''yes'', '''']] @
       Run ''/work'' [''/src/tensorflow/configure''] (Stdout (Process [''yes'', ''''])) 1 # []
   \<and> (1::int) \<noteq> 0
   \<and> fst (TensorFlow_build failing_env demo_tensorflow ''linux-x86_64'' start_world) =
       Raise (ToolFailure [''/src/tensorflow/configure''] 1)"
proof -
  have t: "trace (snd (TensorFlow_build failing_env demo_tensorflow ''linux-x86_64'' start_world)) =
     trace start_world @ [Spawn [''yes'', '''']] @
       Run ''/work'' [''/src/tensorflow/configure''] (Stdout (Process [''yes'', ''''])) 1 # []"
    using TensorFlow_build_outcome [of demo_tensorflow failing_env start_world "''linux-x86_64''"]
    by (simp add: failing_env_def ok_env_def demo_tensorflow_def start_world_def
        empty_fs_def os_path_join_def join2_def startswith_def Let_def)
  have n: "(1::int) \<noteq> 0" by simp
  from tool_failure_aborts [OF disjI2 [OF disjI2 [OF refl]] t n] t n
  show ?thesis by blast
qed

section \<open>The update-option test\<close>

text \<open>
  C7: \<^verbatim>\<open>test_update_option\<close> runs the checkout script exactly once, with the arguments
  \<^verbatim>\<open>--config <config path> --source-root <source root> --clone --update\<close> and nothing
  else, and passes exactly when it exits with status 0.
\<close>

theorem test_update_option_steps:
  "let argv = [update_checkout_path self,
               ''--config'', config_path self,
               ''--source-root'', source_root self,
               ''--clone'', ''--update''];
       r = tool e (cwd w) argv Inherit (fs w)
   in trace (snd (test_update_option e self w)) = trace w @ [Run (cwd w) argv Inherit (fst r)]
      \<and> fst (test_update_option e self w) =
          (if fst r = 0 then Ok () else Raise AssertionFailure)"
  by (simp add: test_update_option_def self_call_def record_action_def split_beta Let_def)

section \<open>Which phases run\<close>

text \<open>
  C8: both adapters answer \<^verbatim>\<open>should_build\<close> with the one flag
  \<^verbatim>\<open>args.build_tensorflow_swift_apis\<close>, whatever the host target: the runtime library is
  built exactly when the binding layer is requested.
\<close>

theorem should_build_same_flag:
  "TensorFlowSwiftAPIs_should_build self h = build_tensorflow_swift_apis (args self)
   \<and> TensorFlow_should_build self h' = build_tensorflow_swift_apis (args self)
   \<and> TensorFlow_should_build self h' = TensorFlowSwiftAPIs_should_build self h"
  by (simp add: TensorFlowSwiftAPIs_should_build_def TensorFlow_should_build_def)

text \<open>
  C9: the runtime-library adapter is never installed: \<^verbatim>\<open>TensorFlow.should_install\<close> is
  False for every host target and every argument configuration, and
  \<^verbatim>\<open>TensorFlow.install\<close> completes without any action and leaves the world as it was.
\<close>

theorem TensorFlow_never_installed:
  "TensorFlow_should_install self h = False
   \<and> TensorFlow_install e self h w = (Ok (), w)"
  by (simp add: TensorFlow_should_install_def TensorFlow_install_def)

end
